theory Spec2Isabelle
  imports Complex_Main "HOL-Library.Word"
begin

section \<open>Data model\<close>

text \<open>
  A Go \<^verbatim>\<open>error\<close> value is its message; the interface value \<^verbatim>\<open>nil\<close> is \<open>None\<close> of
  \<open>error option\<close>. A call either returns or panics; a panic ends the whole process,
  whichever goroutine raised it.
\<close>

type_synonym error = string

type_synonym byte = "8 word"

datatype 'a outcome = Panic error | Return 'a

text \<open>
  \<^verbatim>\<open>message.Message\<close> of the watermill library, as far as this program touches it:
  the identifier, the metadata (a string map, kept as an association list) and the payload.
\<close>

record message =
  UUID :: string
  Metadata :: "(string \<times> string) list"
  Payload :: "byte list"

text \<open>
  The two capabilities of the library, \<^verbatim>\<open>message.Publisher\<close> and
  \<^verbatim>\<open>message.Subscriber\<close>, are interfaces implemented outside this repository. A handle is
  the record of what its methods answer: \<open>Publish\<close> may answer differently at every
  moment, so it also reads the number of effects the process has performed so far.
\<close>

record publisher =
  Publish :: "nat \<Rightarrow> string \<Rightarrow> message \<Rightarrow> error option"
  pub_Close :: "error option"

record subscriber =
  sub_Close :: "error option"

text \<open>The identifier generators that the program names (\<^verbatim>\<open>func() string\<close> values).\<close>

datatype uuid_gen = NewUUID | NewShortUUID | NewULID | newBinaryULID

text \<open>What each constructor of the registry connects to.\<close>

datatype backend =
    GoChannel | Kafka "string list" | Nats | GoogleCloud | MySQL | PostgreSQL | AMQP

text \<open>
  Everything outside the program: what the client libraries answer when a constructor
  connects (handles, or the setup error the constructor panics with), the string each call
  of a generator returns, the bytes and the error of \<^verbatim>\<open>rand.Read\<close>, the clock
  (nanoseconds), each reading the number of effects performed so far, and whether the
  allocator can provide a buffer of a given size.
\<close>

record env =
  connect :: "backend \<Rightarrow> (publisher \<times> subscriber) outcome"
  gen :: "uuid_gen \<Rightarrow> nat \<Rightarrow> string"
  rand_Read :: "nat \<Rightarrow> nat \<Rightarrow> byte list \<times> error option"
  Now :: "nat \<Rightarrow> int"
  can_allocate :: "nat \<Rightarrow> bool"

text \<open>
  A \<^verbatim>\<open>float64\<close> is a real number or one of the three special values; rounding is not
  modelled. The arguments of \<^verbatim>\<open>fmt.Printf\<close> are kept as values, beside the format.
\<close>

datatype float64 = Finite real | PosInf | NegInf | NaN

datatype fmt_arg = Arg_int int | Arg_duration int | Arg_float float64

text \<open>The effects of the program, in the order they happen.\<close>

datatype event =
    Constructor_call string
  | Rand_Seed
  | Go_worker nat
  | Rand_Read nat
  | Gen_call uuid_gen string
  | Send message
  | Publish_call string message "error option"
  | Close_chan
  | Wait_done
  | Printf string "fmt_arg list"
  | Publisher_Close
  | Subscriber_Close

type_synonym world = "event list"

text \<open>
  \<^verbatim>\<open>type PubSub struct\<close>. Go's \<^verbatim>\<open>int\<close> is modelled by \<open>int\<close>: the program only
  compares the counts with 0 and counts a positive one down to 0, so nothing wraps.
  An interface or function field may be \<^verbatim>\<open>nil\<close>.
\<close>

record PubSub =
  Publisher :: "publisher option"
  Subscriber :: "subscriber option"
  MessagesCount :: int
  MessageSize :: int
  Topic :: string
  UUIDFunc :: "uuid_gen option"

text \<open>\<^verbatim>\<open>type PubSubDefinition struct\<close>; a field left out of a literal has its zero value.\<close>

record PubSubDefinition =
  def_MessagesCount :: int
  def_UUIDFunc :: "uuid_gen option"
  def_Constructor :: "env \<Rightarrow> (publisher \<times> subscriber) outcome"

section \<open>The registry and the session\<close>

definition defaultMessagesCount :: int where
  "defaultMessagesCount = 1000000"

definition kafkaConstructor :: "string list \<Rightarrow> env \<Rightarrow> (publisher \<times> subscriber) outcome" where
  "kafkaConstructor brokers = (\<lambda>e. connect e (Kafka brokers))"

definition pubSubDefinitions :: "string \<Rightarrow> PubSubDefinition option" where
  "pubSubDefinitions = map_of
    [(''gochannel'',
        \<lparr>def_MessagesCount = 0, def_UUIDFunc = None,
         def_Constructor = (\<lambda>e. connect e GoChannel)\<rparr>),
     (''kafka'',
        \<lparr>def_MessagesCount = 20000000, def_UUIDFunc = None,
         def_Constructor = kafkaConstructor [''kafka:9092'']\<rparr>),
     (''kafka-multinode'',
        \<lparr>def_MessagesCount = 20000000, def_UUIDFunc = None,
         def_Constructor = kafkaConstructor
           [''kafka1:9091'', ''kafka2:9092'', ''kafka3:9093'', ''kafka4:9094'', ''kafka5:9095'']\<rparr>),
     (''nats'',
        \<lparr>def_MessagesCount = 0, def_UUIDFunc = None,
         def_Constructor = (\<lambda>e. connect e Nats)\<rparr>),
     (''googlecloud'',
        \<lparr>def_MessagesCount = 0, def_UUIDFunc = None,
         def_Constructor = (\<lambda>e. connect e GoogleCloud)\<rparr>),
     (''mysql'',
        \<lparr>def_MessagesCount = 30000, def_UUIDFunc = Some newBinaryULID,
         def_Constructor = (\<lambda>e. connect e MySQL)\<rparr>),
     (''postgresql'',
        \<lparr>def_MessagesCount = 30000, def_UUIDFunc = Some NewUUID,
         def_Constructor = (\<lambda>e. connect e PostgreSQL)\<rparr>),
     (''amqp'',
        \<lparr>def_MessagesCount = 100000, def_UUIDFunc = None,
         def_Constructor = (\<lambda>e. connect e AMQP)\<rparr>)]"

text \<open>\<^verbatim>\<open>PubSub{}\<close>, the zero value returned beside an error.\<close>

definition zero_PubSub :: PubSub where
  "zero_PubSub =
     \<lparr>Publisher = None, Subscriber = None, MessagesCount = 0, MessageSize = 0,
      Topic = [], UUIDFunc = None\<rparr>"

text \<open>
  \<^verbatim>\<open>NewPubSub\<close> returns a pair (session, error). The constructor is called before the
  count is resolved, and its panic is the panic of \<^verbatim>\<open>NewPubSub\<close>.
\<close>

definition NewPubSub ::
  "env \<Rightarrow> string \<Rightarrow> string \<Rightarrow> int \<Rightarrow> int \<Rightarrow> world \<Rightarrow> (PubSub \<times> error option) outcome \<times> world" where
  "NewPubSub e name topic messagesCount messageSize w =
     (case pubSubDefinitions name of
        None \<Rightarrow> (Return (zero_PubSub, Some (''unknown PubSub: '' @ name)), w)
      | Some definition \<Rightarrow>
          (case def_Constructor definition e of
             Panic err \<Rightarrow> (Panic err, w @ [Constructor_call name])
           | Return (pub, sub) \<Rightarrow>
               (let messagesCount' =
                      (if messagesCount = 0
                       then (if def_MessagesCount definition \<noteq> 0
                             then def_MessagesCount definition
                             else defaultMessagesCount)
                       else messagesCount)
                in (Return
                      (\<lparr>Publisher = Some pub, Subscriber = Some sub,
                        MessagesCount = messagesCount', MessageSize = messageSize,
                        Topic = topic, UUIDFunc = def_UUIDFunc definition\<rparr>, None),
                    w @ [Constructor_call name]))))"

text \<open>\<^verbatim>\<open>PubSub.Close\<close>; a method called on a nil interface panics.\<close>

definition nil_dereference :: error where
  "nil_dereference = ''runtime error: invalid memory address or nil pointer dereference''"

definition Close :: "PubSub \<Rightarrow> world \<Rightarrow> error option outcome \<times> world" where
  "Close ps w =
     (case Publisher ps of
        None \<Rightarrow> (Panic nil_dereference, w)
      | Some p \<Rightarrow>
          (case pub_Close p of
             Some err \<Rightarrow> (Return (Some err), w @ [Publisher_Close])
           | None \<Rightarrow>
               (case Subscriber ps of
                  None \<Rightarrow> (Panic nil_dereference, w @ [Publisher_Close])
                | Some s \<Rightarrow> (Return (sub_Close s), w @ [Publisher_Close, Subscriber_Close]))))"

section \<open>The load generator\<close>

text \<open>
  Two functions of the watermill library, as the program uses them.
  \<^verbatim>\<open>message.NewMessage(uuid, payload)\<close> builds a message with empty metadata;
  \<^verbatim>\<open>middleware.SetCorrelationID(id, msg)\<close> stores the id under the key
  \<^verbatim>\<open>correlation_id\<close> unless the message already has a non-empty one.
\<close>

definition NewMessage :: "string \<Rightarrow> byte list \<Rightarrow> message" where
  "NewMessage uuid payload = \<lparr>UUID = uuid, Metadata = [], Payload = payload\<rparr>"

definition CorrelationIDMetadataKey :: string where
  "CorrelationIDMetadataKey = ''correlation_id''"

definition SetCorrelationID :: "string \<Rightarrow> message \<Rightarrow> message" where
  "SetCorrelationID cid msg =
     (case map_of (Metadata msg) CorrelationIDMetadataKey of
        Some (c # cs) \<Rightarrow> msg
      | _ \<Rightarrow> msg\<lparr>Metadata := (CorrelationIDMetadataKey, cid) #
                  filter (\<lambda>kv. fst kv \<noteq> CorrelationIDMetadataKey) (Metadata msg)\<rparr>)"

text \<open>
  \<^verbatim>\<open>make([]byte, n)\<close> panics with \<^verbatim>\<open>makeslice: len out of range\<close> for a negative
  length and for one above the allocator's limit (\<open>2 ^ 48\<close> bytes on the 64-bit
  platforms), dies with \<^verbatim>\<open>out of memory\<close> when the allocator cannot provide the
  buffer, and gives \<open>n\<close> zero bytes otherwise.
\<close>

definition makeslice_panic :: error where
  "makeslice_panic = ''runtime error: makeslice: len out of range''"

definition out_of_memory :: error where
  "out_of_memory = ''fatal error: runtime: out of memory''"

definition maxAlloc :: int where
  "maxAlloc = 2 ^ 48"

definition make_bytes :: "env \<Rightarrow> int \<Rightarrow> byte list outcome" where
  "make_bytes e n =
     (if n < 0 \<or> maxAlloc < n then Panic makeslice_panic
      else if \<not> can_allocate e (nat n) then Panic out_of_memory
      else Return (replicate (nat n) 0))"

text \<open>
  \<^verbatim>\<open>PubSub.payload\<close>. \<^verbatim>\<open>rand.Read\<close> overwrites the buffer in place, so the
  buffer keeps its length whatever the source wrote. On an error the result is the nil
  slice and the error.
\<close>

definition overwrite :: "byte list \<Rightarrow> byte list \<Rightarrow> byte list" where
  "overwrite buf bytes = take (length buf) bytes @ drop (length bytes) buf"

definition payload :: "env \<Rightarrow> PubSub \<Rightarrow> world \<Rightarrow> (byte list \<times> error option) outcome \<times> world" where
  "payload e ps w =
     (case make_bytes e (MessageSize ps) of
        Panic err \<Rightarrow> (Panic err, w)
      | Return msgPayload \<Rightarrow>
          (let r = rand_Read e (length w) (length msgPayload);
               w' = w @ [Rand_Read (length msgPayload)]
           in case snd r of
                Some err \<Rightarrow> (Return ([], Some err), w')
              | None \<Rightarrow> (Return (overwrite msgPayload (fst r), None), w')))"

text \<open>
  The body of one worker for one message received from \<^verbatim>\<open>addMsg\<close>: stamp the
  correlation id, publish, panic on an error.
\<close>

definition worker :: "env \<Rightarrow> PubSub \<Rightarrow> message \<Rightarrow> world \<Rightarrow> unit outcome \<times> world" where
  "worker e ps msg w =
     (let cid = gen e NewShortUUID (length w);
          w1 = w @ [Gen_call NewShortUUID cid];
          msg' = SetCorrelationID cid msg
      in case Publisher ps of
           None \<Rightarrow> (Panic nil_dereference, w1)
         | Some p \<Rightarrow>
             (case Publish p (length w1) (Topic ps) msg' of
                Some err \<Rightarrow> (Panic err, w1 @ [Publish_call (Topic ps) msg' (Some err)])
              | None \<Rightarrow> (Return (), w1 @ [Publish_call (Topic ps) msg' None])))"

text \<open>
  The producer loop \<^verbatim>\<open>for ; messagesLeft > 0; messagesLeft--\<close>. The channel is
  unbuffered, so each send completes when a worker receives the message. The 200 workers
  run concurrently in the program; the model runs the receiving worker's body right after
  the send, which is one of the interleavings the program has. The theorems below count
  effects and compare payloads, which no interleaving changes.
\<close>

function produce :: "env \<Rightarrow> PubSub \<Rightarrow> byte list \<Rightarrow> int \<Rightarrow> world \<Rightarrow> unit outcome \<times> world" where
  "produce e ps msgPayload messagesLeft w =
     (if messagesLeft > 0 then
        (let uuid = gen e NewULID (length w);
             msg = NewMessage uuid msgPayload;
             w1 = w @ [Gen_call NewULID uuid, Send msg]
         in case worker e ps msg w1 of
              (Panic err, w2) \<Rightarrow> (Panic err, w2)
            | (Return u, w2) \<Rightarrow> produce e ps msgPayload (messagesLeft - 1) w2)
      else (Return (), w))"
  by pat_completeness auto
termination
  by (relation "measure (\<lambda>(e, ps, msgPayload, messagesLeft, w). nat messagesLeft)") auto

declare produce.simps [simp del]

text \<open>
  The report line. \<^verbatim>\<open>Duration.Seconds\<close> is the duration in seconds as a
  \<^verbatim>\<open>float64\<close>; dividing a finite number by zero gives an infinity, or NaN for 0/0.
\<close>

definition report_format :: string where
  "report_format = ''added %d messages in %s, %f msg/s'' @ [CHR 0x0A]"

definition Seconds :: "int \<Rightarrow> real" where
  "Seconds d = real_of_int d / 1000000000"

definition float_div :: "real \<Rightarrow> real \<Rightarrow> float64" where
  "float_div x y =
     (if y = 0 then (if x = 0 then NaN else if 0 < x then PosInf else NegInf)
      else Finite (x / y))"

definition report :: "int \<Rightarrow> int \<Rightarrow> event" where
  "report count elapsed =
     Printf report_format
       [Arg_int count, Arg_duration elapsed,
        Arg_float (float_div (real_of_int count) (Seconds elapsed))]"

text \<open>\<^verbatim>\<open>PubSub.PublishMessages\<close>.\<close>

definition PublishMessages :: "env \<Rightarrow> PubSub \<Rightarrow> world \<Rightarrow> error option outcome \<times> world" where
  "PublishMessages e ps w0 =
     (let w1 = w0 @ [Rand_Seed];
          messagesLeft = MessagesCount ps;
          workers = 200;
          start = Now e (length w1);
          w2 = w1 @ map Go_worker [0..<workers]
      in case payload e ps w2 of
           (Panic err, w3) \<Rightarrow> (Panic err, w3)
         | (Return (msgPayload, Some err), w3) \<Rightarrow> (Return (Some err), w3)
         | (Return (msgPayload, None), w3) \<Rightarrow>
             (case produce e ps msgPayload messagesLeft w3 of
                (Panic err, w4) \<Rightarrow> (Panic err, w4)
              | (Return u, w4) \<Rightarrow>
                  (let w5 = w4 @ [Close_chan, Wait_done];
                       elapsed = Now e (length w5) - start
                   in (Return None, w5 @ [report (MessagesCount ps) elapsed]))))"

section \<open>Observations on a trace\<close>

fun sent :: "event \<Rightarrow> message list" where
  "sent (Send m) = [m]"
| "sent _ = []"

fun published :: "event \<Rightarrow> message list" where
  "published (Publish_call t m r) = [m]"
| "published _ = []"

fun failures :: "event \<Rightarrow> error list" where
  "failures (Publish_call t m (Some err)) = [err]"
| "failures _ = []"

fun generated :: "event \<Rightarrow> (uuid_gen \<times> string) list" where
  "generated (Gen_call g s) = [(g, s)]"
| "generated _ = []"

fun is_Printf :: "event \<Rightarrow> bool" where
  "is_Printf (Printf f args) = True"
| "is_Printf _ = False"

fun is_Rand_Read :: "event \<Rightarrow> bool" where
  "is_Rand_Read (Rand_Read n) = True"
| "is_Rand_Read _ = False"

text \<open>A fixture for concrete runs: every backend is reachable and nothing fails.\<close>

definition ok_publisher :: publisher where
  "ok_publisher = \<lparr>Publish = (\<lambda>n t m. None), pub_Close = None\<rparr>"

definition ok_subscriber :: subscriber where
  "ok_subscriber = \<lparr>sub_Close = None\<rparr>"

definition ok_env :: env where
  "ok_env =
     \<lparr>connect = (\<lambda>b. Return (ok_publisher, ok_subscriber)),
      gen = (\<lambda>g n. replicate n (CHR ''x'')),
      rand_Read = (\<lambda>n k. (replicate k 42, None)),
      Now = (\<lambda>n. int n),
      can_allocate = (\<lambda>n. True)\<rparr>"

text \<open>What a trace shows: the envelopes handed to the queue, the messages given to
  \<^verbatim>\<open>Publish\<close>, the errors \<^verbatim>\<open>Publish\<close> answered, and the strings a generator returned.\<close>

definition sent_messages :: "world \<Rightarrow> message list" where
  "sent_messages evs = concat (map sent evs)"

definition published_messages :: "world \<Rightarrow> message list" where
  "published_messages evs = concat (map published evs)"

definition publish_failures :: "world \<Rightarrow> error list" where
  "publish_failures evs = concat (map failures evs)"

definition ids_from :: "uuid_gen \<Rightarrow> world \<Rightarrow> string list" where
  "ids_from g evs = map snd (filter (\<lambda>p. fst p = g) (concat (map generated evs)))"

text \<open>
  The effects of one turn of the producer loop together with the receiving worker's, and
  the effects of a run before the payload is made: the seeding and the 200 workers.
\<close>

definition iteration :: "PubSub \<Rightarrow> byte list \<Rightarrow> string \<Rightarrow> string \<Rightarrow> error option \<Rightarrow> world" where
  "iteration ps pl uuid cid r =
     [Gen_call NewULID uuid, Send (NewMessage uuid pl), Gen_call NewShortUUID cid,
      Publish_call (Topic ps) (SetCorrelationID cid (NewMessage uuid pl)) r]"

definition startup :: world where
  "startup = Rand_Seed # map Go_worker [0..<200]"

text \<open>
  Sessions for concrete runs: one on the reachable fixture, one whose publisher refuses
  the second message and fails to close, and the session \<^verbatim>\<open>NewPubSub\<close> builds for
  \<^verbatim>\<open>mysql\<close>.
\<close>

definition bench_session :: PubSub where
  "bench_session =
     \<lparr>Publisher = Some ok_publisher, Subscriber = Some ok_subscriber, MessagesCount = 3,
      MessageSize = 4, Topic = ''bench'', UUIDFunc = None\<rparr>"

definition flaky_publisher :: publisher where
  "flaky_publisher =
     \<lparr>Publish = (\<lambda>n t m. if 208 < n then Some ''broker unavailable'' else None),
      pub_Close = Some ''publisher close failed''\<rparr>"

definition flaky_session :: PubSub where
  "flaky_session =
     \<lparr>Publisher = Some flaky_publisher, Subscriber = Some ok_subscriber, MessagesCount = 3,
      MessageSize = 4, Topic = ''bench'', UUIDFunc = None\<rparr>"

definition mysql_session :: PubSub where
  "mysql_session =
     \<lparr>Publisher = Some ok_publisher, Subscriber = Some ok_subscriber, MessagesCount = 2,
      MessageSize = 4, Topic = ''bench'', UUIDFunc = Some newBinaryULID\<rparr>"

section \<open>The shape of a run\<close>

text \<open>Reading a trace piece by piece.\<close>

lemma obs_simps:
  "sent_messages [] = []" "sent_messages (ev # evs) = sent ev @ sent_messages evs"
  "published_messages [] = []"
  "published_messages (ev # evs) = published ev @ published_messages evs"
  "publish_failures [] = []"
  "publish_failures (ev # evs) = failures ev @ publish_failures evs"
  by (simp_all add: sent_messages_def published_messages_def publish_failures_def)

lemma sent_messages_append: "sent_messages (a @ b) = sent_messages a @ sent_messages b"
  by (simp add: sent_messages_def)

lemma published_messages_append:
  "published_messages (a @ b) = published_messages a @ published_messages b"
  by (simp add: published_messages_def)

lemma publish_failures_append:
  "publish_failures (a @ b) = publish_failures a @ publish_failures b"
  by (simp add: publish_failures_def)

lemma ids_from_append: "ids_from g (a @ b) = ids_from g a @ ids_from g b"
  by (simp add: ids_from_def)

lemma startup_obs:
  "sent_messages startup = []" "published_messages startup = []"
  "publish_failures startup = []" "ids_from g startup = []"
  "filter is_Printf startup = []" "filter is_Rand_Read startup = []"
  by (simp_all add: startup_def sent_messages_def published_messages_def
        publish_failures_def ids_from_def filter_empty_conv)

lemma Go_worker_obs:
  "concat (map (sent \<circ> Go_worker) ns) = []"
  "concat (map (published \<circ> Go_worker) ns) = []"
  "concat (map (generated \<circ> Go_worker) ns) = []"
  by (induction ns) simp_all

lemma Payload_SetCorrelationID: "Payload (SetCorrelationID cid msg) = Payload msg"
  by (simp add: SetCorrelationID_def split: option.splits list.splits)

lemma length_overwrite: "length (overwrite buf bytes) = length buf"
  by (simp add: overwrite_def)

text \<open>The loop either stops or takes one turn; a worker ends in one of three ways.\<close>

lemma produce_stop: "\<not> 0 < m \<Longrightarrow> produce e ps pl m w = (Return (), w)"
  by (simp add: produce.simps)

lemma produce_step:
  "0 < m \<Longrightarrow> produce e ps pl m w =
     (case worker e ps (NewMessage (gen e NewULID (length w)) pl)
             (w @ [Gen_call NewULID (gen e NewULID (length w)),
                   Send (NewMessage (gen e NewULID (length w)) pl)]) of
        (Panic err, w2) \<Rightarrow> (Panic err, w2)
      | (Return u, w2) \<Rightarrow> produce e ps pl (m - 1) w2)"
  by (subst produce.simps) (simp add: Let_def)

lemma worker_disj:
  "(Publisher ps = None \<and>
      worker e ps msg w =
        (Panic nil_dereference, w @ [Gen_call NewShortUUID (gen e NewShortUUID (length w))]))
   \<or> (\<exists>err. worker e ps msg w =
         (Panic err, w @ [Gen_call NewShortUUID (gen e NewShortUUID (length w)),
            Publish_call (Topic ps) (SetCorrelationID (gen e NewShortUUID (length w)) msg)
              (Some err)]))
   \<or> worker e ps msg w =
         (Return (), w @ [Gen_call NewShortUUID (gen e NewShortUUID (length w)),
            Publish_call (Topic ps) (SetCorrelationID (gen e NewShortUUID (length w)) msg) None])"
  by (simp add: worker_def Let_def split: option.splits)

lemma worker_cases:
  obtains
    (nil) cid where "Publisher ps = None"
      "worker e ps msg w = (Panic nil_dereference, w @ [Gen_call NewShortUUID cid])"
  | (fail) cid err where
      "worker e ps msg w =
         (Panic err, w @ [Gen_call NewShortUUID cid,
                          Publish_call (Topic ps) (SetCorrelationID cid msg) (Some err)])"
  | (ok) cid where
      "worker e ps msg w =
         (Return (), w @ [Gen_call NewShortUUID cid,
                          Publish_call (Topic ps) (SetCorrelationID cid msg) None])"
  using worker_disj [of ps e msg w] by blast

text \<open>
  An induction principle for the loop: a property of (turns left, outcome, effects) that
  holds when the loop stops, when a worker panics, and is kept by a successful turn,
  holds of every run of the loop.
\<close>

lemma produce_shape:
  assumes P_stop: "\<And>m. \<not> 0 < m \<Longrightarrow> P m (Return ()) []"
    and P_nil: "\<And>m uuid cid. 0 < m \<Longrightarrow> Publisher ps = None \<Longrightarrow>
        P m (Panic nil_dereference)
          [Gen_call NewULID uuid, Send (NewMessage uuid pl), Gen_call NewShortUUID cid]"
    and P_fail: "\<And>m uuid cid err. 0 < m \<Longrightarrow> P m (Panic err) (iteration ps pl uuid cid (Some err))"
    and P_step: "\<And>m uuid cid out evs. 0 < m \<Longrightarrow> P (m - 1) out evs \<Longrightarrow>
        P m out (iteration ps pl uuid cid None @ evs)"
  shows "\<exists>evs. snd (produce e ps pl m w) = w @ evs \<and> P m (fst (produce e ps pl m w)) evs"
  using assms
proof (induction e ps pl m w rule: produce.induct)
  case (1 e ps pl m w)
  note P_stop = "1.prems"(1) and P_nil = "1.prems"(2) and P_fail = "1.prems"(3)
    and P_step = "1.prems"(4)
  show ?case
  proof (cases "0 < m")
    case False
    then show ?thesis using P_stop [of m] by (simp add: produce_stop)
  next
    case True
    define uuid where "uuid = gen e NewULID (length w)"
    define w1 where "w1 = w @ [Gen_call NewULID uuid, Send (NewMessage uuid pl)]"
    have unfold: "produce e ps pl m w =
        (case worker e ps (NewMessage uuid pl) w1 of
           (Panic err, w2) \<Rightarrow> (Panic err, w2)
         | (Return u, w2) \<Rightarrow> produce e ps pl (m - 1) w2)"
      using True by (simp add: produce_step uuid_def w1_def)
    show ?thesis
    proof (cases rule: worker_cases [of ps e "NewMessage uuid pl" w1])
      case (nil cid)
      then show ?thesis using P_nil [OF True nil(1), of uuid cid]
        by (simp add: unfold w1_def)
    next
      case (fail cid err)
      then show ?thesis using P_fail [OF True, of err uuid cid]
        by (simp add: unfold w1_def iteration_def)
    next
      case (ok cid)
      define w2 where "w2 = w1 @ [Gen_call NewShortUUID cid,
          Publish_call (Topic ps) (SetCorrelationID cid (NewMessage uuid pl)) None]"
      have eq: "produce e ps pl m w = produce e ps pl (m - 1) w2"
        by (simp add: unfold ok w2_def)
      have wk: "(Return (), w2) =
          worker e ps (NewMessage (gen e NewULID (length w)) pl)
            (w @ [Gen_call NewULID (gen e NewULID (length w)),
                  Send (NewMessage (gen e NewULID (length w)) pl)])"
        using ok by (simp add: w2_def w1_def uuid_def)
      have "\<exists>evs. snd (produce e ps pl (m - 1) w2) = w2 @ evs \<and>
                 P (m - 1) (fst (produce e ps pl (m - 1) w2)) evs"
        by (rule "1.IH" [OF True refl refl refl wk refl P_stop P_nil P_fail P_step])
      then obtain evs where evs: "snd (produce e ps pl (m - 1) w2) = w2 @ evs"
        "P (m - 1) (fst (produce e ps pl (m - 1) w2)) evs" by blast
      show ?thesis using P_step [OF True evs(2), of uuid cid] evs(1)
        by (simp add: eq w2_def w1_def iteration_def)
    qed
  qed
qed

lemma produce_counts:
  "\<exists>evs. snd (produce e ps pl m w) = w @ evs \<and>
     (fst (produce e ps pl m w) = Return () \<longrightarrow>
        sent_messages evs = map (\<lambda>u. NewMessage u pl) (ids_from NewULID evs) \<and>
        length (sent_messages evs) = nat m \<and>
        length (published_messages evs) = nat m \<and>
        Close_chan \<notin> set evs)"
  by (rule produce_shape)
     (auto simp: iteration_def sent_messages_def published_messages_def ids_from_def
        nat_diff_distrib)

lemma produce_payloads:
  "\<exists>evs. snd (produce e ps pl m w) = w @ evs \<and>
     list_all (\<lambda>m. Payload m = pl) (sent_messages evs @ published_messages evs) \<and>
     filter is_Rand_Read evs = []"
  by (rule produce_shape [where P = "\<lambda>m out evs.
        list_all (\<lambda>m. Payload m = pl) (sent_messages evs @ published_messages evs) \<and>
        filter is_Rand_Read evs = []"])
     (auto simp: iteration_def Payload_SetCorrelationID NewMessage_def
        sent_messages_def published_messages_def)

lemma produce_ids:
  "\<exists>evs. snd (produce e ps pl m w) = w @ evs \<and>
     map UUID (sent_messages evs) = ids_from NewULID evs \<and>
     ids_from NewUUID evs = [] \<and> ids_from newBinaryULID evs = []"
  by (rule produce_shape [where P = "\<lambda>m out evs.
        map UUID (sent_messages evs) = ids_from NewULID evs \<and>
        ids_from NewUUID evs = [] \<and> ids_from newBinaryULID evs = []"])
     (auto simp: iteration_def NewMessage_def sent_messages_def ids_from_def)

lemma produce_failure:
  "\<exists>evs. snd (produce e ps pl m w) = w @ evs \<and> filter is_Printf evs = [] \<and>
     (publish_failures evs = [] \<or>
      (\<exists>t msg err. fst (produce e ps pl m w) = Panic err \<and>
         publish_failures evs = [err] \<and>
         last evs = Publish_call t msg (Some err) \<and>
         length (published_messages evs) = length (sent_messages evs)))"
  by (rule produce_shape [where P = "\<lambda>m out evs. filter is_Printf evs = [] \<and>
     (publish_failures evs = [] \<or>
      (\<exists>t msg err. out = Panic err \<and>
         publish_failures evs = [err] \<and>
         last evs = Publish_call t msg (Some err) \<and>
         length (published_messages evs) = length (sent_messages evs)))"])
     (auto simp: iteration_def sent_messages_def published_messages_def publish_failures_def)

lemma produce_no_failure:
  "\<exists>evs. snd (produce e ps pl m w) = w @ evs \<and>
     (fst (produce e ps pl m w) = Return () \<longrightarrow> publish_failures evs = [])"
  by (rule produce_shape [where P = "\<lambda>m out evs. out = Return () \<longrightarrow> publish_failures evs = []"])
     (auto simp: iteration_def publish_failures_def)

text \<open>The four ways \<^verbatim>\<open>payload\<close> and \<^verbatim>\<open>PublishMessages\<close> can end.\<close>

lemma make_bytes_Return:
  "make_bytes e n = Return buf \<longleftrightarrow>
     0 \<le> n \<and> n \<le> maxAlloc \<and> can_allocate e (nat n) \<and> buf = replicate (nat n) 0"
  by (auto simp: make_bytes_def)

lemma report_obs [simp]:
  "sent (report c d) = []" "published (report c d) = []" "failures (report c d) = []"
  "generated (report c d) = []" "is_Printf (report c d)" "\<not> is_Rand_Read (report c d)"
  "report c d \<noteq> Close_chan"
  by (simp_all add: report_def)

lemma payload_cases:
  obtains
    (no_buffer) err where "make_bytes e (MessageSize ps) = Panic err"
      "payload e ps w = (Panic err, w)"
  | (rand_error) err where "0 \<le> MessageSize ps"
      "make_bytes e (MessageSize ps) = Return (replicate (nat (MessageSize ps)) 0)"
      "snd (rand_Read e (length w) (nat (MessageSize ps))) = Some err"
      "payload e ps w = (Return ([], Some err), w @ [Rand_Read (nat (MessageSize ps))])"
  | (filled) buf where "0 \<le> MessageSize ps"
      "make_bytes e (MessageSize ps) = Return (replicate (nat (MessageSize ps)) 0)"
      "snd (rand_Read e (length w) (nat (MessageSize ps))) = None"
      "int (length buf) = MessageSize ps"
      "buf = overwrite (replicate (nat (MessageSize ps)) 0)
               (fst (rand_Read e (length w) (nat (MessageSize ps))))"
      "payload e ps w = (Return (buf, None), w @ [Rand_Read (nat (MessageSize ps))])"
proof (cases "make_bytes e (MessageSize ps)")
  case (Panic err)
  then show ?thesis using no_buffer by (simp add: payload_def)
next
  case (Return zeros)
  then have z: "0 \<le> MessageSize ps" "zeros = replicate (nat (MessageSize ps)) 0"
    by (simp_all add: make_bytes_Return)
  show ?thesis
  proof (cases "snd (rand_Read e (length w) (nat (MessageSize ps)))")
    case None
    with Return z show ?thesis
      using filled [of "overwrite (replicate (nat (MessageSize ps)) 0)
                          (fst (rand_Read e (length w) (nat (MessageSize ps))))"]
      by (simp add: payload_def Let_def length_overwrite)
  next
    case (Some err)
    with Return z show ?thesis using rand_error [of err]
      by (simp add: payload_def Let_def)
  qed
qed

lemma PublishMessages_cases:
  obtains
    (no_buffer) err where "make_bytes e (MessageSize ps) = Panic err"
      "PublishMessages e ps w0 = (Panic err, w0 @ startup)"
  | (rand_error) err where "0 \<le> MessageSize ps"
      "make_bytes e (MessageSize ps) = Return (replicate (nat (MessageSize ps)) 0)"
      "snd (rand_Read e (length (w0 @ startup)) (nat (MessageSize ps))) = Some err"
      "PublishMessages e ps w0 =
         (Return (Some err), w0 @ startup @ [Rand_Read (nat (MessageSize ps))])"
  | (aborted) buf err where "0 \<le> MessageSize ps" "int (length buf) = MessageSize ps"
      "payload e ps (w0 @ startup) =
         (Return (buf, None), w0 @ startup @ [Rand_Read (nat (MessageSize ps))])"
      "fst (produce e ps buf (MessagesCount ps)
              (w0 @ startup @ [Rand_Read (nat (MessageSize ps))])) = Panic err"
      "PublishMessages e ps w0 =
         (Panic err, snd (produce e ps buf (MessagesCount ps)
                            (w0 @ startup @ [Rand_Read (nat (MessageSize ps))])))"
  | (completed) buf d where "0 \<le> MessageSize ps" "int (length buf) = MessageSize ps"
      "payload e ps (w0 @ startup) =
         (Return (buf, None), w0 @ startup @ [Rand_Read (nat (MessageSize ps))])"
      "fst (produce e ps buf (MessagesCount ps)
              (w0 @ startup @ [Rand_Read (nat (MessageSize ps))])) = Return ()"
      "PublishMessages e ps w0 =
         (Return None, snd (produce e ps buf (MessagesCount ps)
                            (w0 @ startup @ [Rand_Read (nat (MessageSize ps))]))
                       @ [Close_chan, Wait_done, report (MessagesCount ps) d])"
      "d = Now e (length (snd (produce e ps buf (MessagesCount ps)
                            (w0 @ startup @ [Rand_Read (nat (MessageSize ps))]))) + 2)
           - Now e (Suc (length w0))"
proof (cases rule: payload_cases [of e ps "w0 @ startup"])
  case (no_buffer err)
  then show ?thesis using that(1) [of err] by (simp add: PublishMessages_def startup_def)
next
  case (rand_error err)
  then show ?thesis using that(2) [of err] by (simp add: PublishMessages_def startup_def)
next
  case (filled buf)
  obtain out w4 where p: "produce e ps buf (MessagesCount ps)
              (w0 @ startup @ [Rand_Read (nat (MessageSize ps))]) = (out, w4)"
    by (cases "produce e ps buf (MessagesCount ps)
              (w0 @ startup @ [Rand_Read (nat (MessageSize ps))])")
  show ?thesis
  proof (cases out)
    case (Panic err)
    then show ?thesis using that(3) [of buf err] filled p
      by (simp add: PublishMessages_def startup_def)
  next
    case (Return u)
    then show ?thesis using that(4) [of buf] filled p
      by (simp add: PublishMessages_def startup_def Let_def)
  qed
qed

text \<open>
  A run completes when nothing outside fails: the session has a publisher that accepts
  every message, the buffer can be made and the randomness source does not fail.
\<close>

lemma worker_succeeds:
  assumes "Publisher ps = Some p" and "\<And>n t m. Publish p n t m = None"
  shows "worker e ps msg w =
     (Return (), w @ [Gen_call NewShortUUID (gen e NewShortUUID (length w)),
        Publish_call (Topic ps) (SetCorrelationID (gen e NewShortUUID (length w)) msg) None])"
  using assms by (simp add: worker_def Let_def)

lemma produce_succeeds:
  assumes "Publisher ps = Some p" and "\<And>n t m. Publish p n t m = None"
  shows "fst (produce e ps pl m w) = Return ()"
  using assms
proof (induction e ps pl m w rule: produce.induct)
  case (1 e ps pl m w)
  show ?case
  proof (cases "0 < m")
    case False
    then show ?thesis by (simp add: produce_stop)
  next
    case True
    let ?uuid = "gen e NewULID (length w)"
    let ?w1 = "w @ [Gen_call NewULID ?uuid, Send (NewMessage ?uuid pl)]"
    obtain w2 where wk: "worker e ps (NewMessage ?uuid pl) ?w1 = (Return (), w2)"
      using worker_succeeds [OF "1.prems"] by blast
    have "produce e ps pl m w = produce e ps pl (m - 1) w2"
      using True wk by (simp add: produce_step)
    moreover have "fst (produce e ps pl (m - 1) w2) = Return ()"
      by (rule "1.IH" [OF True refl refl refl wk [symmetric] refl "1.prems"])
    ultimately show ?thesis by simp
  qed
qed

lemma PublishMessages_completes:
  assumes "Publisher ps = Some p" and "\<And>n t m. Publish p n t m = None"
    and "0 \<le> MessageSize ps" and "\<And>n k. snd (rand_Read e n k) = None"
    and "MessageSize ps \<le> maxAlloc" and "can_allocate e (nat (MessageSize ps))"
  shows "fst (PublishMessages e ps w0) = Return None"
proof (cases rule: PublishMessages_cases [of e ps w0])
  case (no_buffer err)
  with assms(3,5,6) show ?thesis by (simp add: make_bytes_def)
next
  case (rand_error err)
  with assms(4) show ?thesis by simp
next
  case (aborted buf err)
  then show ?thesis using produce_succeeds [OF assms(1,2)] by simp
next
  case (completed buf d)
  then show ?thesis by simp
qed

lemma payload_size_out_of_range:
  "MessageSize ps < 0 \<or> maxAlloc < MessageSize ps \<Longrightarrow>
   payload e ps w = (Panic makeslice_panic, w)"
  by (auto simp: payload_def make_bytes_def)

text \<open>Concrete runs and registry entries.\<close>

lemmas run_defs = PublishMessages_def payload_def make_bytes_def maxAlloc_def produce_step
  produce_stop worker_def Let_def ok_env_def ok_publisher_def ok_subscriber_def

lemma dom_pubSubDefinitions:
  "dom pubSubDefinitions =
     {''gochannel'', ''kafka'', ''kafka-multinode'', ''nats'', ''googlecloud'', ''mysql'',
      ''postgresql'', ''amqp''}"
  by (auto simp: pubSubDefinitions_def split: if_splits)

lemma registry_lookup:
  "pubSubDefinitions ''gochannel'' =
     Some \<lparr>def_MessagesCount = 0, def_UUIDFunc = None,
           def_Constructor = (\<lambda>e. connect e GoChannel)\<rparr>"
  "pubSubDefinitions ''kafka'' =
     Some \<lparr>def_MessagesCount = 20000000, def_UUIDFunc = None,
           def_Constructor = kafkaConstructor [''kafka:9092'']\<rparr>"
  "pubSubDefinitions ''mysql'' =
     Some \<lparr>def_MessagesCount = 30000, def_UUIDFunc = Some newBinaryULID,
           def_Constructor = (\<lambda>e. connect e MySQL)\<rparr>"
  "pubSubDefinitions ''doesnotexist'' = None"
  by (simp_all add: pubSubDefinitions_def)

lemma ok_env_connect:
  "connect ok_env b = Return (ok_publisher, ok_subscriber)"
  "kafkaConstructor bs ok_env = Return (ok_publisher, ok_subscriber)"
  by (simp_all add: ok_env_def kafkaConstructor_def)

lemma bench_run:
  "fst (PublishMessages ok_env bench_session []) = Return None"
  by (simp add: run_defs bench_session_def)

lemma flaky_run:
  "publish_failures (snd (PublishMessages ok_env flaky_session [])) \<noteq> []"
  by (simp add: run_defs flaky_session_def flaky_publisher_def publish_failures_def)

section \<open>The session\<close>

text \<open>
  C1. Message-count resolution in \<^verbatim>\<open>NewPubSub\<close>: for a recognized backend whose
  constructor returns its handles, a positive \<open>messagesCount\<close> argument is the session's
  count; an argument of 0 gives the definition's default when that is not 0, and 1,000,000
  when it is.
\<close>

theorem NewPubSub_count_resolution:
  assumes "pubSubDefinitions name = Some d" and "def_Constructor d e = Return (pub, sub)"
  shows "\<exists>ps. NewPubSub e name topic messagesCount messageSize w
             = (Return (ps, None), w @ [Constructor_call name]) \<and>
     (0 < messagesCount \<longrightarrow> MessagesCount ps = messagesCount) \<and>
     (messagesCount = 0 \<and> def_MessagesCount d \<noteq> 0 \<longrightarrow> MessagesCount ps = def_MessagesCount d) \<and>
     (messagesCount = 0 \<and> def_MessagesCount d = 0 \<longrightarrow> MessagesCount ps = 1000000)"
  using assms by (simp add: NewPubSub_def defaultMessagesCount_def)

theorem NewPubSub_count_resolution_witness:
  "(\<exists>ps. NewPubSub ok_env ''gochannel'' ''bench'' 500 100 []
            = (Return (ps, None), [Constructor_call ''gochannel'']) \<and> MessagesCount ps = 500) \<and>
   (\<exists>ps. NewPubSub ok_env ''kafka'' ''bench'' 0 100 []
            = (Return (ps, None), [Constructor_call ''kafka'']) \<and> MessagesCount ps = 20000000) \<and>
   (\<exists>ps. NewPubSub ok_env ''gochannel'' ''bench'' 0 100 []
            = (Return (ps, None), [Constructor_call ''gochannel'']) \<and> MessagesCount ps = 1000000)"
  using NewPubSub_count_resolution [OF registry_lookup(1), of ok_env ok_publisher ok_subscriber
           "''bench''" 500 100 "[]"]
        NewPubSub_count_resolution [OF registry_lookup(2), of ok_env ok_publisher ok_subscriber
           "''bench''" 0 100 "[]"]
        NewPubSub_count_resolution [OF registry_lookup(1), of ok_env ok_publisher ok_subscriber
           "''bench''" 0 100 "[]"]
  by (simp add: ok_env_connect)

text \<open>
  C5. For a name that is not in the registry \<^verbatim>\<open>NewPubSub\<close> returns the zero session
  and the error \<^verbatim>\<open>unknown PubSub: <name>\<close>; the trace is unchanged, so no constructor
  was called and no worker was started, and the session returned holds neither a publisher
  nor a subscriber.
\<close>

theorem NewPubSub_unknown:
  assumes "pubSubDefinitions name = None"
  shows "NewPubSub e name topic messagesCount messageSize w
           = (Return (zero_PubSub, Some (''unknown PubSub: '' @ name)), w)
         \<and> Publisher zero_PubSub = None \<and> Subscriber zero_PubSub = None"
  using assms by (simp add: NewPubSub_def zero_PubSub_def)

theorem NewPubSub_unknown_witness:
  "NewPubSub ok_env ''doesnotexist'' ''bench'' 500 100 []
           = (Return (zero_PubSub, Some ''unknown PubSub: doesnotexist''), [])
         \<and> Publisher zero_PubSub = None \<and> Subscriber zero_PubSub = None"
  using NewPubSub_unknown [OF registry_lookup(4), of ok_env "''bench''" 500 100 "[]"]
  by simp

text \<open>
  C10. For a recognized backend whose constructor returns, a strictly negative
  \<open>messagesCount\<close> argument is returned unchanged as the session's count, with a nil
  error: only the argument 0 is replaced by a default.
\<close>

theorem NewPubSub_negative_count:
  assumes "pubSubDefinitions name = Some d" and "def_Constructor d e = Return (pub, sub)"
    and "messagesCount < 0"
  shows "\<exists>ps. NewPubSub e name topic messagesCount messageSize w
             = (Return (ps, None), w @ [Constructor_call name]) \<and>
           MessagesCount ps = messagesCount"
  using assms by (simp add: NewPubSub_def)

theorem NewPubSub_negative_count_witness:
  "\<exists>ps. NewPubSub ok_env ''kafka'' ''bench'' (- 5) 100 []
             = (Return (ps, None), [Constructor_call ''kafka'']) \<and>
           MessagesCount ps = - 5"
  using NewPubSub_negative_count [OF registry_lookup(2), of ok_env ok_publisher ok_subscriber
           "- 5" "''bench''" 100 "[]"]
  by (simp add: ok_env_connect)

text \<open>
  C9. \<^verbatim>\<open>NewPubSub\<close> copies the definition's identifier generator into the session as
  it is. For \<^verbatim>\<open>gochannel\<close>, whose definition leaves it unset, the session's
  \<open>UUIDFunc\<close> is nil: no generic generator is put in its place.
\<close>

theorem NewPubSub_UUIDFunc_copied:
  assumes "pubSubDefinitions name = Some d" and "def_Constructor d e = Return (pub, sub)"
  shows "\<exists>ps. NewPubSub e name topic messagesCount messageSize w
             = (Return (ps, None), w @ [Constructor_call name]) \<and>
           UUIDFunc ps = def_UUIDFunc d"
  using assms by (simp add: NewPubSub_def)

theorem NewPubSub_UUIDFunc_copied_witness:
  "\<exists>ps. NewPubSub ok_env ''gochannel'' ''bench'' 500 100 []
             = (Return (ps, None), [Constructor_call ''gochannel'']) \<and>
           UUIDFunc ps = None"
  using NewPubSub_UUIDFunc_copied [OF registry_lookup(1), of ok_env ok_publisher ok_subscriber
           "''bench''" 500 100 "[]"]
  by (simp add: ok_env_connect)

text \<open>
  C2, as the code has it. \<^verbatim>\<open>Close\<close> closes the publisher first. If that fails, the
  error is returned at once and the subscriber is not closed; otherwise the subscriber is
  closed and the result of its \<^verbatim>\<open>Close\<close> is returned. Either way the value returned
  is the first non-nil error of the releases that were made.
\<close>

theorem Close_publisher_first:
  assumes "Publisher ps = Some p" and "Subscriber ps = Some s"
  shows "Close ps w =
           (case pub_Close p of
              Some err \<Rightarrow> (Return (Some err), w @ [Publisher_Close])
            | None \<Rightarrow> (Return (sub_Close s), w @ [Publisher_Close, Subscriber_Close]))"
  using assms by (simp add: Close_def split: option.splits)

theorem Close_publisher_first_witness:
  "Close bench_session [] = (Return None, [Publisher_Close, Subscriber_Close]) \<and>
   Close flaky_session [] = (Return (Some ''publisher close failed''), [Publisher_Close])"
  using Close_publisher_first [of bench_session ok_publisher ok_subscriber "[]"]
        Close_publisher_first [of flaky_session flaky_publisher ok_subscriber "[]"]
  by (simp add: bench_session_def flaky_session_def flaky_publisher_def ok_publisher_def
        ok_subscriber_def)

text \<open>
  C2 as stated fails: with a publisher whose \<^verbatim>\<open>Close\<close> returns an error, the
  subscriber's \<^verbatim>\<open>Close\<close> is never called.
\<close>

theorem Close_skips_subscriber:
  "Publisher flaky_session = Some flaky_publisher \<and>
   pub_Close flaky_publisher = Some ''publisher close failed'' \<and>
   Close flaky_session [] = (Return (Some ''publisher close failed''), [Publisher_Close]) \<and>
   Subscriber_Close \<notin> set (snd (Close flaky_session []))"
  by (simp add: Close_def flaky_session_def flaky_publisher_def)

section \<open>Properties of the load generator\<close>

text \<open>
  C6. In a completed run of a session with a positive count, the producer loop makes
  exactly \<open>MessagesCount\<close> turns: that many identifiers are drawn, each envelope handed
  to the queue is \<^verbatim>\<open>NewMessage\<close> of one of them and the shared payload, the queue is
  closed only after the last of them, and \<^verbatim>\<open>Publish\<close> is called exactly
  \<open>MessagesCount\<close> times.
\<close>

theorem PublishMessages_count:
  assumes "0 < MessagesCount ps" and "PublishMessages e ps w0 = (Return None, w')"
  shows "\<exists>buf body d.
     w' = w0 @ startup @ [Rand_Read (nat (MessageSize ps))] @ body
            @ [Close_chan, Wait_done, report (MessagesCount ps) d] \<and>
     sent_messages body = map (\<lambda>u. NewMessage u buf) (ids_from NewULID body) \<and>
     int (length (sent_messages body)) = MessagesCount ps \<and>
     int (length (published_messages body)) = MessagesCount ps \<and>
     Close_chan \<notin> set body"
proof (cases rule: PublishMessages_cases [of e ps w0])
  case (no_buffer err)
  with assms show ?thesis by simp
next
  case (rand_error err)
  with assms show ?thesis by simp
next
  case (aborted buf err)
  with assms show ?thesis by simp
next
  case (completed buf d)
  define w3 where "w3 = w0 @ startup @ [Rand_Read (nat (MessageSize ps))]"
  obtain body where body: "snd (produce e ps buf (MessagesCount ps) w3) = w3 @ body"
    "sent_messages body = map (\<lambda>u. NewMessage u buf) (ids_from NewULID body)"
    "length (sent_messages body) = nat (MessagesCount ps)"
    "length (published_messages body) = nat (MessagesCount ps)"
    "Close_chan \<notin> set body"
    using produce_counts [of e ps buf "MessagesCount ps" w3] completed(4)
    unfolding w3_def by blast
  have "w' = w0 @ startup @ [Rand_Read (nat (MessageSize ps))] @ body
            @ [Close_chan, Wait_done, report (MessagesCount ps) d]"
    using completed(5) assms(2) body(1) by (simp add: w3_def)
  with body assms(1) show ?thesis by auto
qed

theorem PublishMessages_count_witness:
  "\<exists>buf body d.
     snd (PublishMessages ok_env bench_session []) =
       startup @ [Rand_Read 4] @ body @ [Close_chan, Wait_done, report 3 d] \<and>
     sent_messages body = map (\<lambda>u. NewMessage u buf) (ids_from NewULID body) \<and>
     length (sent_messages body) = 3 \<and>
     length (published_messages body) = 3 \<and>
     Close_chan \<notin> set body"
proof -
  have pos: "0 < MessagesCount bench_session" by (simp add: bench_session_def)
  have run: "PublishMessages ok_env bench_session []
      = (Return None, snd (PublishMessages ok_env bench_session []))"
    using bench_run by (metis prod.collapse)
  show ?thesis using PublishMessages_count [OF pos run]
    by (simp add: bench_session_def)
qed

text \<open>
  C3. If a call of \<^verbatim>\<open>Publish\<close> in a run fails, the run ends in a panic that carries
  that error (\<^verbatim>\<open>PublishMessages\<close> does not return): the failing call is the last
  effect of the run, it is the only failure, every envelope handed over was given to
  \<^verbatim>\<open>Publish\<close> once and none again, and no report line is printed.
\<close>

theorem PublishMessages_publish_failure:
  assumes "PublishMessages e ps w0 = (out, w0 @ evs)" and "publish_failures evs \<noteq> []"
  shows "\<exists>t msg err. out = Panic err \<and> publish_failures evs = [err] \<and>
           last evs = Publish_call t msg (Some err) \<and>
           filter is_Printf evs = [] \<and>
           length (published_messages evs) = length (sent_messages evs)"
proof (cases rule: PublishMessages_cases [of e ps w0])
  case (no_buffer err)
  with assms show ?thesis by (simp add: startup_obs)
next
  case (rand_error err)
  then have "evs = startup @ [Rand_Read (nat (MessageSize ps))]" using assms(1) by simp
  then have "publish_failures evs = []"
    by (simp add: publish_failures_append startup_obs) (simp add: publish_failures_def)
  with assms(2) show ?thesis by simp
next
  case (aborted buf err)
  define w3 where "w3 = w0 @ startup @ [Rand_Read (nat (MessageSize ps))]"
  obtain body where body: "snd (produce e ps buf (MessagesCount ps) w3) = w3 @ body"
    "filter is_Printf body = []"
    "publish_failures body = [] \<or>
      (\<exists>t msg err. fst (produce e ps buf (MessagesCount ps) w3) = Panic err \<and>
         publish_failures body = [err] \<and>
         last body = Publish_call t msg (Some err) \<and>
         length (published_messages body) = length (sent_messages body))"
    using produce_failure [of e ps buf "MessagesCount ps" w3] by blast
  have evs: "evs = startup @ [Rand_Read (nat (MessageSize ps))] @ body" and out: "out = Panic err"
    using aborted(5) assms(1) body(1) by (simp_all add: w3_def)
  have f: "publish_failures evs = publish_failures body"
    by (simp add: evs publish_failures_append startup_obs) (simp add: publish_failures_def)
  with assms(2) body(3) obtain t msg err' where
    b: "fst (produce e ps buf (MessagesCount ps) w3) = Panic err'"
       "publish_failures body = [err']" "last body = Publish_call t msg (Some err')"
       "length (published_messages body) = length (sent_messages body)"
    by auto
  have "body \<noteq> []" using b(2) by (auto simp: publish_failures_def)
  then have l: "last evs = Publish_call t msg (Some err')" using b(3) by (simp add: evs)
  have "err' = err" using b(1) aborted(4) by (simp add: w3_def)
  moreover have "filter is_Printf evs = []" using body(2) by (simp add: evs startup_obs)
  moreover have "length (published_messages evs) = length (sent_messages evs)"
    using b(4)
    by (simp add: evs published_messages_append sent_messages_append startup_obs)
       (simp add: published_messages_def sent_messages_def)
  ultimately show ?thesis using out f b(2) l by auto
next
  case (completed buf d)
  define w3 where "w3 = w0 @ startup @ [Rand_Read (nat (MessageSize ps))]"
  obtain body where body: "snd (produce e ps buf (MessagesCount ps) w3) = w3 @ body"
    "publish_failures body = []"
    using produce_no_failure [of e ps buf "MessagesCount ps" w3] completed(4)
    unfolding w3_def by blast
  have "evs = startup @ [Rand_Read (nat (MessageSize ps))] @ body
                @ [Close_chan, Wait_done, report (MessagesCount ps) d]"
    using completed(5) assms(1) body(1) by (simp add: w3_def)
  then have "publish_failures evs = []" using body(2)
    by (simp add: publish_failures_append startup_obs) (simp add: publish_failures_def)
  with assms(2) show ?thesis by simp
qed

theorem PublishMessages_publish_failure_witness:
  "fst (PublishMessages ok_env flaky_session []) = Panic ''broker unavailable'' \<and>
   length (published_messages (snd (PublishMessages ok_env flaky_session []))) = 2 \<and>
   (\<exists>t msg err. fst (PublishMessages ok_env flaky_session []) = Panic err \<and>
      publish_failures (snd (PublishMessages ok_env flaky_session [])) = [err] \<and>
      last (snd (PublishMessages ok_env flaky_session [])) = Publish_call t msg (Some err) \<and>
      filter is_Printf (snd (PublishMessages ok_env flaky_session [])) = [] \<and>
      length (published_messages (snd (PublishMessages ok_env flaky_session []))) =
      length (sent_messages (snd (PublishMessages ok_env flaky_session []))))"
proof -
  have run: "PublishMessages ok_env flaky_session [] =
      (fst (PublishMessages ok_env flaky_session []),
       [] @ snd (PublishMessages ok_env flaky_session []))"
    by simp
  have second: "fst (PublishMessages ok_env flaky_session []) = Panic ''broker unavailable'' \<and>
      length (published_messages (snd (PublishMessages ok_env flaky_session []))) = 2"
    by (simp add: run_defs flaky_session_def flaky_publisher_def published_messages_def
          Go_worker_obs)
  show ?thesis
    using PublishMessages_publish_failure [OF run flaky_run] second by simp
qed

text \<open>
  C7. For a size that \<^verbatim>\<open>make\<close> accepts, \<^verbatim>\<open>payload\<close> returns a buffer of exactly
  that many bytes, overwritten with what the randomness source wrote, when the source
  reports no error, and the nil slice with the source's error when it reports one. In a
  run the only read of the randomness source comes after the start-up, which hands over no
  envelope and draws no identifier, and before everything else; every envelope handed over
  or published later carries the buffer that \<^verbatim>\<open>payload\<close> returned. (Outside the
  range \<^verbatim>\<open>make\<close> panics: \<open>payload_size_out_of_range\<close>.)
\<close>

theorem payload_once_per_run:
  assumes "0 \<le> MessageSize ps" and "MessageSize ps \<le> maxAlloc"
    and "can_allocate e (nat (MessageSize ps))"
  shows "((snd (rand_Read e (length w) (nat (MessageSize ps))) = None \<and>
           (\<exists>buf. payload e ps w = (Return (buf, None), w @ [Rand_Read (nat (MessageSize ps))]) \<and>
              int (length buf) = MessageSize ps \<and>
              buf = overwrite (replicate (nat (MessageSize ps)) 0)
                      (fst (rand_Read e (length w) (nat (MessageSize ps)))))) \<or>
          (\<exists>err. snd (rand_Read e (length w) (nat (MessageSize ps))) = Some err \<and>
             payload e ps w = (Return ([], Some err), w @ [Rand_Read (nat (MessageSize ps))]))) \<and>
         (\<exists>buf evs.
            snd (PublishMessages e ps w0) =
              w0 @ startup @ [Rand_Read (nat (MessageSize ps))] @ evs \<and>
            sent_messages startup = [] \<and> ids_from NewULID startup = [] \<and>
            filter is_Rand_Read startup = [] \<and> filter is_Rand_Read evs = [] \<and>
            int (length buf) = MessageSize ps \<and>
            (fst (payload e ps (w0 @ startup)) = Return (buf, None) \<or> evs = []) \<and>
            list_all (\<lambda>m. Payload m = buf) (sent_messages evs @ published_messages evs))"
proof
  have nopanic: "\<And>err. make_bytes e (MessageSize ps) \<noteq> Panic err"
    using assms by (simp add: make_bytes_def)
  show "(snd (rand_Read e (length w) (nat (MessageSize ps))) = None \<and>
           (\<exists>buf. payload e ps w = (Return (buf, None), w @ [Rand_Read (nat (MessageSize ps))]) \<and>
              int (length buf) = MessageSize ps \<and>
              buf = overwrite (replicate (nat (MessageSize ps)) 0)
                      (fst (rand_Read e (length w) (nat (MessageSize ps)))))) \<or>
          (\<exists>err. snd (rand_Read e (length w) (nat (MessageSize ps))) = Some err \<and>
             payload e ps w = (Return ([], Some err), w @ [Rand_Read (nat (MessageSize ps))]))"
  proof (cases rule: payload_cases [of e ps w])
    case (no_buffer err)
    then show ?thesis using nopanic [of err] by simp
  next
    case (rand_error err)
    then show ?thesis by simp
  next
    case (filled buf)
    then show ?thesis by simp
  qed
next
  have nopanic: "\<And>err. make_bytes e (MessageSize ps) \<noteq> Panic err"
    using assms by (simp add: make_bytes_def)
  let ?n = "nat (MessageSize ps)"
  let ?goal = "\<lambda>buf evs.
            snd (PublishMessages e ps w0) = w0 @ startup @ [Rand_Read ?n] @ evs \<and>
            sent_messages startup = [] \<and> ids_from NewULID startup = [] \<and>
            filter is_Rand_Read startup = [] \<and> filter is_Rand_Read evs = [] \<and>
            int (length buf) = MessageSize ps \<and>
            (fst (payload e ps (w0 @ startup)) = Return (buf, None) \<or> evs = []) \<and>
            list_all (\<lambda>m. Payload m = buf) (sent_messages evs @ published_messages evs)"
  show "\<exists>buf evs. ?goal buf evs"
  proof (cases rule: PublishMessages_cases [of e ps w0])
    case (no_buffer err)
    then show ?thesis using nopanic [of err] by simp
  next
    case (rand_error err)
    with assms have "?goal (replicate ?n 0) []"
      by (simp add: startup_obs obs_simps)
    then show ?thesis by blast
  next
    case (aborted buf err)
    define w3 where "w3 = w0 @ startup @ [Rand_Read ?n]"
    obtain body where body: "snd (produce e ps buf (MessagesCount ps) w3) = w3 @ body"
      "list_all (\<lambda>m. Payload m = buf) (sent_messages body @ published_messages body)"
      "filter is_Rand_Read body = []"
      using produce_payloads [of e ps buf "MessagesCount ps" w3] by blast
    have "?goal buf body"
      using aborted body by (simp add: w3_def startup_obs)
    then show ?thesis by blast
  next
    case (completed buf d)
    define w3 where "w3 = w0 @ startup @ [Rand_Read ?n]"
    obtain body where body: "snd (produce e ps buf (MessagesCount ps) w3) = w3 @ body"
      "list_all (\<lambda>m. Payload m = buf) (sent_messages body @ published_messages body)"
      "filter is_Rand_Read body = []"
      using produce_payloads [of e ps buf "MessagesCount ps" w3] by blast
    have "?goal buf (body @ [Close_chan, Wait_done, report (MessagesCount ps) d])"
      using completed(1-5) body
      by (simp add: w3_def startup_obs sent_messages_append published_messages_append
            obs_simps)
    then show ?thesis by blast
  qed
qed

theorem payload_once_per_run_witness:
  "((snd (rand_Read ok_env 0 4) = None \<and>
      (\<exists>buf. payload ok_env bench_session [] = (Return (buf, None), [Rand_Read 4]) \<and>
             length buf = 4 \<and> buf = overwrite (replicate 4 0) (fst (rand_Read ok_env 0 4)))) \<or>
    (\<exists>err. snd (rand_Read ok_env 0 4) = Some err \<and>
           payload ok_env bench_session [] = (Return ([], Some err), [Rand_Read 4]))) \<and>
   (\<exists>buf evs.
      snd (PublishMessages ok_env bench_session []) = startup @ [Rand_Read 4] @ evs \<and>
      sent_messages startup = [] \<and> ids_from NewULID startup = [] \<and>
      filter is_Rand_Read startup = [] \<and> filter is_Rand_Read evs = [] \<and>
      length buf = 4 \<and>
      (fst (payload ok_env bench_session startup) = Return (buf, None) \<or> evs = []) \<and>
      list_all (\<lambda>m. Payload m = buf) (sent_messages evs @ published_messages evs))"
proof -
  have four: "MessageSize bench_session = 4" by (simp add: bench_session_def)
  have size: "0 \<le> MessageSize bench_session" "MessageSize bench_session \<le> maxAlloc"
    "can_allocate ok_env (nat (MessageSize bench_session))"
    by (simp_all add: four maxAlloc_def ok_env_def)
  show ?thesis
    using payload_once_per_run [OF size, of "[]" "[]"] by (simp add: four)
qed

text \<open>
  C8. A run that returns nil ends with the one report of the run: \<^verbatim>\<open>Printf\<close> with the
  format \<^verbatim>\<open>added %d messages in %s, %f msg/s\<close>, the session's count, the elapsed time
  and their quotient in messages per second. The elapsed time is the clock read after
  the workers are done minus the clock read before they were started; it is not negative
  when the clock never runs backwards, and the quotient is the count divided by the
  elapsed seconds when the elapsed time is positive.
\<close>

theorem PublishMessages_report:
  assumes "PublishMessages e ps w0 = (Return None, w')"
  shows "\<exists>body d.
     w' = w0 @ body @ [report (MessagesCount ps) d] \<and>
     filter is_Printf body = [] \<and>
     d = Now e (length (w0 @ body)) - Now e (Suc (length w0)) \<and>
     Suc (length w0) < length (w0 @ body) \<and>
     ((\<forall>i j. i \<le> j \<longrightarrow> Now e i \<le> Now e j) \<longrightarrow> 0 \<le> d) \<and>
     report (MessagesCount ps) d =
       Printf (''added %d messages in %s, %f msg/s'' @ [CHR 0x0A])
         [Arg_int (MessagesCount ps), Arg_duration d,
          Arg_float (float_div (real_of_int (MessagesCount ps)) (Seconds d))] \<and>
     Seconds d = real_of_int d / 1000000000 \<and>
     (0 < d \<longrightarrow> float_div (real_of_int (MessagesCount ps)) (Seconds d) =
                  Finite (real_of_int (MessagesCount ps) / Seconds d))"
proof (cases rule: PublishMessages_cases [of e ps w0])
  case (no_buffer err)
  with assms show ?thesis by simp
next
  case (rand_error err)
  with assms show ?thesis by simp
next
  case (aborted buf err)
  with assms show ?thesis by simp
next
  case (completed buf d)
  define w3 where "w3 = w0 @ startup @ [Rand_Read (nat (MessageSize ps))]"
  obtain evs where evs: "snd (produce e ps buf (MessagesCount ps) w3) = w3 @ evs"
    "filter is_Printf evs = []"
    using produce_failure [of e ps buf "MessagesCount ps" w3] by blast
  define body where "body = startup @ [Rand_Read (nat (MessageSize ps))] @ evs
                              @ [Close_chan, Wait_done]"
  have w': "w' = w0 @ body @ [report (MessagesCount ps) d]"
    using completed(5) assms evs(1) by (simp add: w3_def body_def)
  have np: "filter is_Printf body = []"
    using evs(2) by (simp add: body_def startup_obs)
  have d: "d = Now e (length (w0 @ body)) - Now e (Suc (length w0))"
    using completed(6) evs(1) by (simp add: w3_def body_def)
  have lt: "Suc (length w0) < length (w0 @ body)"
    by (simp add: body_def startup_def)
  have mono: "(\<forall>i j. i \<le> j \<longrightarrow> Now e i \<le> Now e j) \<longrightarrow> 0 \<le> d"
    using d lt by (auto simp: less_imp_le)
  show ?thesis
    using w' np d lt mono by (auto simp: report_def report_format_def Seconds_def float_div_def)
qed

theorem PublishMessages_report_witness:
  "\<exists>body d.
     snd (PublishMessages ok_env bench_session []) = body @ [report 3 d] \<and>
     filter is_Printf body = [] \<and>
     d = Now ok_env (length body) - Now ok_env 1 \<and> 1 < length body \<and> 0 \<le> d"
proof -
  have run: "PublishMessages ok_env bench_session []
      = (Return None, snd (PublishMessages ok_env bench_session []))"
    using bench_run by (metis prod.collapse)
  have clock: "\<forall>i j. i \<le> j \<longrightarrow> Now ok_env i \<le> Now ok_env j"
    by (simp add: ok_env_def)
  show ?thesis
    using PublishMessages_report [OF run] clock by (simp add: bench_session_def) blast
qed

text \<open>
  Whatever the session's \<open>UUIDFunc\<close> is, the identifiers of the envelopes of a run are
  the strings returned by \<^verbatim>\<open>watermill.NewULID\<close>, and neither \<^verbatim>\<open>watermill.NewUUID\<close>
  nor \<^verbatim>\<open>newBinaryULID\<close> is called.
\<close>

lemma PublishMessages_ids:
  "\<exists>evs. snd (PublishMessages e ps w0) = w0 @ evs \<and>
     map UUID (sent_messages evs) = ids_from NewULID evs \<and>
     ids_from NewUUID evs = [] \<and> ids_from newBinaryULID evs = []"
proof (cases rule: PublishMessages_cases [of e ps w0])
  case (no_buffer err)
  then show ?thesis by (simp add: startup_obs)
next
  case (rand_error err)
  then show ?thesis
    by (simp add: startup_obs sent_messages_append ids_from_append)
       (simp add: sent_messages_def ids_from_def)
next
  case (aborted buf err)
  define w3 where "w3 = w0 @ startup @ [Rand_Read (nat (MessageSize ps))]"
  obtain body where body: "snd (produce e ps buf (MessagesCount ps) w3) = w3 @ body"
    "map UUID (sent_messages body) = ids_from NewULID body"
    "ids_from NewUUID body = []" "ids_from newBinaryULID body = []"
    using produce_ids [of e ps buf "MessagesCount ps" w3] by blast
  have "snd (PublishMessages e ps w0) = w0 @ startup @ [Rand_Read (nat (MessageSize ps))] @ body"
    using aborted(5) body(1) by (simp add: w3_def)
  then show ?thesis using body(2,3,4)
    by (simp add: startup_obs sent_messages_append ids_from_append)
       (simp add: sent_messages_def ids_from_def)
next
  case (completed buf d)
  define w3 where "w3 = w0 @ startup @ [Rand_Read (nat (MessageSize ps))]"
  obtain body where body: "snd (produce e ps buf (MessagesCount ps) w3) = w3 @ body"
    "map UUID (sent_messages body) = ids_from NewULID body"
    "ids_from NewUUID body = []" "ids_from newBinaryULID body = []"
    using produce_ids [of e ps buf "MessagesCount ps" w3] by blast
  have "snd (PublishMessages e ps w0) = w0 @ startup @ [Rand_Read (nat (MessageSize ps))] @ body
          @ [Close_chan, Wait_done, report (MessagesCount ps) d]"
    using completed(5) body(1) by (simp add: w3_def)
  then show ?thesis using body(2,3,4)
    by (simp add: startup_obs sent_messages_append ids_from_append)
       (simp add: sent_messages_def ids_from_def)
qed

text \<open>
  C4. The session that \<^verbatim>\<open>NewPubSub\<close> builds for \<^verbatim>\<open>mysql\<close> has the generator
  \<^verbatim>\<open>newBinaryULID\<close>, yet a run of two messages on it never calls that generator: both
  envelope identifiers come from \<^verbatim>\<open>watermill.NewULID\<close>.
\<close>

theorem PublishMessages_mysql_ids:
  "NewPubSub ok_env ''mysql'' ''bench'' 2 4 [] = (Return (mysql_session, None), [Constructor_call ''mysql'']) \<and>
   UUIDFunc mysql_session = Some newBinaryULID \<and>
   fst (PublishMessages ok_env mysql_session []) = Return None \<and>
   length (sent_messages (snd (PublishMessages ok_env mysql_session []))) = 2 \<and>
   map UUID (sent_messages (snd (PublishMessages ok_env mysql_session [])))
     = ids_from NewULID (snd (PublishMessages ok_env mysql_session [])) \<and>
   ids_from newBinaryULID (snd (PublishMessages ok_env mysql_session [])) = []"
  by (simp add: run_defs mysql_session_def NewPubSub_def pubSubDefinitions_def
        sent_messages_def ids_from_def NewMessage_def Go_worker_obs)

end
